theory Spec2Isabelle
  imports Main
begin

section \<open>The script \<open>install-pre-commit.ts\<close>: data model\<close>

text \<open>
  The script is one TypeScript module. It configures an argument parser of the
  \<open>yargs\<close> library, registers one default command and one failure callback, and
  writes everything it prints to standard output. The module's own code is embedded
  here function by function; what the platform and the library provide is taken as a
  parameter.

  Strings are byte lists: a \<open>string\<close> stands for the UTF-8 bytes of the script's
  string, so that \<open>utf8TextEncoder.encode\<close> is the identity and string
  concatenation is \<open>@\<close>. Every write is taken to deliver its whole buffer.
\<close>

text \<open>
  \<open>interface GlobalOptions\<close> (lines 22-27): each field is optional, so a field is
  \<open>None\<close> when it is \<open>undefined\<close>.
\<close>

record GlobalOptions =
  verbose :: "bool option"
  "help" :: "bool option"
  version :: "bool option"
  completionScript :: "bool option"

text \<open>
  The values a logger can be called with (\<open>...data: unknown[]\<close>). The model covers the
  primitive values whose conversion to a string is fixed by the language: strings,
  booleans, \<open>undefined\<close> and \<open>null\<close>. Numbers, symbols and objects are outside it.
\<close>

datatype jsval = JUndefined | JNull | JBoolean bool | JString string

text \<open>
  An \<open>Error\<close> as the failure callback reads it: only its optional \<open>stack\<close> is used.
\<close>

record Error =
  message :: string
  stack :: "string option"

text \<open>The four levels of the logger, used to record which logger emitted a line.\<close>

datatype level = LError | LWarning | LInfo | LVerbose

text \<open>
  The state of the running process: the module variable \<open>verboseEnabled\<close> (line 30),
  the bytes written to standard output so far, and, as instrumentation that the
  script itself does not hold, the level of every log line emitted so far.
\<close>

record state =
  verboseEnabled :: bool
  stdout :: string
  logged :: "level list"

text \<open>
  What the platform and the library supply: \<open>Deno.noColor\<close>, the text that
  \<open>parser.getHelp()\<close> resolves to, and the bytes that
  \<open>parser.showCompletionScript()\<close> writes to standard output.
\<close>

record platform =
  noColor :: bool
  getHelp :: string
  showCompletionScript :: string

text \<open>How a command or a callback ends: it returns, or it calls \<open>Deno.exit\<close>.\<close>

datatype completion = Returned | Exited int

text \<open>
  The status of the process: the argument of \<open>Deno.exit\<close>, and 0 when the script
  runs to its end without calling it.
\<close>

fun exitCode :: "completion \<Rightarrow> int" where
  "exitCode Returned = 0"
| "exitCode (Exited n) = n"

section \<open>Constants (lines 67-76)\<close>

definition SCRIPT_NAME :: string where
  "SCRIPT_NAME = ''install-pre-commit''"

definition SCRIPT_VERSION :: string where
  "SCRIPT_VERSION = ''v0.1.0''"

definition SCRIPT_COPYRIGHT :: string where
  "SCRIPT_COPYRIGHT = ''Copyright (c) 2026 G'lek Tarssza, all rights reserved''"

definition EXIT_PROCESS_ON_FAIL :: bool where
  "EXIT_PROCESS_ON_FAIL = False"

text \<open>The escape character \<open>\x1B\<close>, the line feed \<open>\n\<close> and the double quote.\<close>

definition esc :: string where
  "esc = [CHR 0x1B]"

definition nl :: string where
  "nl = [CHR 0x0A]"

definition dquote :: string where
  "dquote = [CHR 0x22]"

section \<open>The output sink (lines 99-113)\<close>

definition writeStdoutSync :: "string \<Rightarrow> state \<Rightarrow> state" where
  "writeStdoutSync msg st = st\<lparr>stdout := stdout st @ msg\<rparr>"

text \<open>The asynchronous write is awaited at every call, so it is the same state change.\<close>

definition writeStdout :: "string \<Rightarrow> state \<Rightarrow> state" where
  "writeStdout msg st = st\<lparr>stdout := stdout st @ msg\<rparr>"

definition writeLineStdoutSync :: "string \<Rightarrow> state \<Rightarrow> state" where
  "writeLineStdoutSync msg st = writeStdoutSync (msg @ nl) st"

definition writeLineStdout :: "string \<Rightarrow> state \<Rightarrow> state" where
  "writeLineStdout msg st = writeStdout (msg @ nl) st"

section \<open>The leveled logger (lines 114-149)\<close>

text \<open>
  \<open>Array.prototype.join\<close>: \<open>undefined\<close> and \<open>null\<close> become the empty string, every
  other element its string form; the separator stands between neighbours only.
\<close>

fun toString :: "jsval \<Rightarrow> string" where
  "toString JUndefined = ''''"
| "toString JNull = ''''"
| "toString (JBoolean b) = (if b then ''true'' else ''false'')"
| "toString (JString s) = s"

fun join :: "string \<Rightarrow> jsval list \<Rightarrow> string" where
  "join sep [] = ''''"
| "join sep [x] = toString x"
| "join sep (x # y # ys) = toString x @ sep @ join sep (y # ys)"

text \<open>Instrumentation: a logger that emits a line records its level.\<close>

definition emitted :: "level \<Rightarrow> state \<Rightarrow> state" where
  "emitted l st = st\<lparr>logged := logged st @ [l]\<rparr>"

definition logError :: "platform \<Rightarrow> jsval list \<Rightarrow> state \<Rightarrow> state" where
  "logError p data st =
     (let msg = join '' '' data in
      emitted LError
        (if noColor p then writeLineStdoutSync (''[ERROR] '' @ msg) st
         else writeLineStdoutSync (esc @ ''[38:5:196m[ERROR]'' @ esc @ ''[0m '' @ msg) st))"

definition logWarning :: "platform \<Rightarrow> jsval list \<Rightarrow> state \<Rightarrow> state" where
  "logWarning p data st =
     (let msg = join '' '' data in
      emitted LWarning
        (if noColor p then writeLineStdoutSync (''[WARN] '' @ msg) st
         else writeLineStdoutSync (esc @ ''[38:5:208m[WARN]'' @ esc @ ''[0m '' @ msg) st))"

definition logInfo :: "platform \<Rightarrow> jsval list \<Rightarrow> state \<Rightarrow> state" where
  "logInfo p data st =
     (let msg = join '' '' data in
      emitted LInfo
        (if noColor p then writeLineStdoutSync (''[INFO] '' @ msg) st
         else writeLineStdoutSync (esc @ ''[38:5:111m[INFO]'' @ esc @ ''[0m '' @ msg) st))"

text \<open>
  In the template literal of line 145 the escape \<open>\ \<close> is a plain space, so the
  uncoloured label is \<open>[VERBOSE]\<close> followed by one space.
\<close>

definition logVerbose :: "platform \<Rightarrow> jsval list \<Rightarrow> state \<Rightarrow> state" where
  "logVerbose p data st =
     (if \<not> verboseEnabled st then st
      else
        (let msg = join '' '' data in
         emitted LVerbose
           (if noColor p then writeLineStdoutSync (''[VERBOSE] '' @ msg) st
            else writeLineStdoutSync (esc @ ''[38:5:141m[VERBOSE]'' @ esc @ ''[0m '' @ msg) st)))"

section \<open>The default command and the failure callback (lines 150-185)\<close>

text \<open>The truthiness of an optional boolean, as \<open>if (args.help)\<close> tests it.\<close>

fun truthy :: "bool option \<Rightarrow> bool" where
  "truthy None = False"
| "truthy (Some b) = b"

text \<open>
  \<open>COMMAND_MODULE.handler\<close>. \<open>Deno.exit\<close> does not return, so each of the first
  three blocks ends the handler; the library's \<open>showCompletionScript\<close> writes its
  script to standard output by itself.
\<close>

definition handler :: "platform \<Rightarrow> GlobalOptions \<Rightarrow> state \<Rightarrow> completion \<times> state" where
  "handler p args st0 =
     (let st = st0\<lparr>verboseEnabled := (case verbose args of None \<Rightarrow> False | Some b \<Rightarrow> b)\<rparr> in
      if truthy (help args) then
        (Exited 0, writeLineStdout (getHelp p) st)
      else if truthy (version args) then
        (Exited 0,
         writeLineStdout SCRIPT_COPYRIGHT
           (writeLineStdout (SCRIPT_NAME @ '' '' @ SCRIPT_VERSION) st))
      else if truthy (completionScript args) then
        (Exited 0, st\<lparr>stdout := stdout st @ showCompletionScript p\<rparr>)
      else
        (Returned,
         logVerbose p [JString ''Hello, world, verbosely!'']
           (logInfo p [JString ''Hello, world!''] st)))"

text \<open>
  \<open>error?.stack\<close>: \<open>undefined\<close> when there is no error or the error has no stack.
  The test \<open>if (error?.stack)\<close> holds for a non-empty string only.
\<close>

definition stackOf :: "Error option \<Rightarrow> string option" where
  "stackOf error = (case error of None \<Rightarrow> None | Some e \<Rightarrow> stack e)"

definition onFail :: "platform \<Rightarrow> string \<Rightarrow> Error option \<Rightarrow> state \<Rightarrow> completion \<times> state" where
  "onFail p msg error st0 =
     (let st1 = logError p [JString ''Fatal error while running script!''] st0;
          st2 = logError p [JString (''Error message: '' @ dquote @ msg @ dquote)] st1
      in case stackOf error of
           None \<Rightarrow> (Returned, logError p [JString ''No stack trace available!''] st2)
         | Some s \<Rightarrow>
             if s \<noteq> [] then
               (Returned, writeLineStdout s (logError p [JString ''Stack trace:''] st2))
             else (Returned, logError p [JString ''No stack trace available!''] st2))"

section \<open>Runs of the script (lines 187-208)\<close>

text \<open>
  The module hands two functions to the library: the handler of the default command
  (\<open>.command(COMMAND_MODULE)\<close>) and the failure callback (\<open>.fail(onFail)\<close>); the
  builder of the command returns its argument unchanged. Nothing else of the module
  is reachable from the library, and the top level of the module calls no logger
  itself. A run of the script is therefore some finite sequence of calls of these two
  functions, chosen by the library, from the initial state; it stops at the first
  call that exits the process.
\<close>

datatype callback = Handler GlobalOptions | Fail string "Error option"

fun invoke :: "platform \<Rightarrow> callback \<Rightarrow> state \<Rightarrow> completion \<times> state" where
  "invoke p (Handler args) st = handler p args st"
| "invoke p (Fail msg error) st = onFail p msg error st"

fun run :: "platform \<Rightarrow> callback list \<Rightarrow> state \<Rightarrow> completion \<times> state" where
  "run p [] st = (Returned, st)"
| "run p (c # cs) st =
     (case invoke p c st of
        (Exited n, st') \<Rightarrow> (Exited n, st')
      | (Returned, st') \<Rightarrow> run p cs st')"

definition initial :: state where
  "initial = \<lparr>verboseEnabled = False, stdout = '''', logged = []\<rparr>"

section \<open>The parser and its dispatch (lines 150-151 and 187-208)\<close>





section \<open>Basic facts\<close>

subsection \<open>Joining\<close>

text \<open>
  On a non-empty list, \<open>join\<close> is the first element followed by each further
  element with the separator in front of it: the separator stands once between
  neighbours and nowhere else.
\<close>

lemma join_Cons: "join sep (x # xs) = toString x @ concat (map (\<lambda>y. sep @ toString y) xs)"
  by (induction xs arbitrary: x) auto

subsection \<open>What each operation does to the three parts of the state\<close>

lemma truthy_iff: "truthy b \<longleftrightarrow> b = Some True"
  by (cases b) auto

lemma stdout_writeLineStdout: "stdout (writeLineStdout msg st) = stdout st @ msg @ nl"
  by (simp add: writeLineStdout_def writeStdout_def)

lemma logged_writeLineStdout: "logged (writeLineStdout msg st) = logged st"
  by (simp add: writeLineStdout_def writeStdout_def)

lemma stdout_logError:
  "stdout (logError p data st) =
     stdout st @ (if noColor p then ''[ERROR]'' else esc @ ''[38:5:196m[ERROR]'' @ esc @ ''[0m'')
       @ '' '' @ join '' '' data @ nl"
  by (simp add: logError_def Let_def emitted_def writeLineStdoutSync_def writeStdoutSync_def)

lemma stdout_logWarning:
  "stdout (logWarning p data st) =
     stdout st @ (if noColor p then ''[WARN]'' else esc @ ''[38:5:208m[WARN]'' @ esc @ ''[0m'')
       @ '' '' @ join '' '' data @ nl"
  by (simp add: logWarning_def Let_def emitted_def writeLineStdoutSync_def writeStdoutSync_def)

lemma stdout_logInfo:
  "stdout (logInfo p data st) =
     stdout st @ (if noColor p then ''[INFO]'' else esc @ ''[38:5:111m[INFO]'' @ esc @ ''[0m'')
       @ '' '' @ join '' '' data @ nl"
  by (simp add: logInfo_def Let_def emitted_def writeLineStdoutSync_def writeStdoutSync_def)

lemma stdout_logVerbose:
  "stdout (logVerbose p data st) =
     (if verboseEnabled st then
        stdout st @ (if noColor p then ''[VERBOSE]'' else esc @ ''[38:5:141m[VERBOSE]'' @ esc @ ''[0m'')
          @ '' '' @ join '' '' data @ nl
      else stdout st)"
  by (simp add: logVerbose_def Let_def emitted_def writeLineStdoutSync_def writeStdoutSync_def)

lemma logged_logError: "logged (logError p data st) = logged st @ [LError]"
  by (simp add: logError_def Let_def emitted_def writeLineStdoutSync_def writeStdoutSync_def)

lemma logged_logInfo: "logged (logInfo p data st) = logged st @ [LInfo]"
  by (simp add: logInfo_def Let_def emitted_def writeLineStdoutSync_def writeStdoutSync_def)

lemma logged_logVerbose:
  "logged (logVerbose p data st) = logged st @ (if verboseEnabled st then [LVerbose] else [])"
  by (simp add: logVerbose_def Let_def emitted_def writeLineStdoutSync_def writeStdoutSync_def)

lemma verboseEnabled_logInfo: "verboseEnabled (logInfo p data st) = verboseEnabled st"
  by (simp add: logInfo_def Let_def emitted_def writeLineStdoutSync_def writeStdoutSync_def)

lemma verboseEnabled_logVerbose: "verboseEnabled (logVerbose p data st) = verboseEnabled st"
  by (simp add: logVerbose_def Let_def emitted_def writeLineStdoutSync_def writeStdoutSync_def)

subsection \<open>The four ways through the handler\<close>

lemma handler_help:
  "help args = Some True \<Longrightarrow>
   handler p args st =
     (Exited 0, st\<lparr>verboseEnabled := (verbose args = Some True),
                    stdout := stdout st @ getHelp p @ nl\<rparr>)"
  by (cases "verbose args")
     (simp_all add: handler_def Let_def writeLineStdout_def writeStdout_def)

lemma handler_version:
  "help args \<noteq> Some True \<Longrightarrow> version args = Some True \<Longrightarrow>
   handler p args st =
     (Exited 0, st\<lparr>verboseEnabled := (verbose args = Some True),
                    stdout := stdout st @ SCRIPT_NAME @ '' '' @ SCRIPT_VERSION @ nl
                                @ SCRIPT_COPYRIGHT @ nl\<rparr>)"
  by (cases "verbose args")
     (simp_all add: handler_def Let_def writeLineStdout_def writeStdout_def truthy_iff)

lemma handler_completion:
  "help args \<noteq> Some True \<Longrightarrow> version args \<noteq> Some True \<Longrightarrow>
   completionScript args = Some True \<Longrightarrow>
   handler p args st =
     (Exited 0, st\<lparr>verboseEnabled := (verbose args = Some True),
                    stdout := stdout st @ showCompletionScript p\<rparr>)"
  by (cases "verbose args")
     (simp_all add: handler_def Let_def truthy_iff)

lemma handler_greeting:
  "help args \<noteq> Some True \<Longrightarrow> version args \<noteq> Some True \<Longrightarrow>
   completionScript args \<noteq> Some True \<Longrightarrow>
   handler p args st =
     (Returned,
      logVerbose p [JString ''Hello, world, verbosely!'']
        (logInfo p [JString ''Hello, world!'']
          (st\<lparr>verboseEnabled := (verbose args = Some True)\<rparr>)))"
  by (cases "verbose args")
     (simp_all add: handler_def Let_def truthy_iff)

lemma handler_cases:
  obtains (shows_help) "help args = Some True"
  | (shows_version) "help args \<noteq> Some True" "version args = Some True"
  | (shows_completion) "help args \<noteq> Some True" "version args \<noteq> Some True"
      "completionScript args = Some True"
  | (greets) "help args \<noteq> Some True" "version args \<noteq> Some True"
      "completionScript args \<noteq> Some True"
  by blast

subsection \<open>The failure callback\<close>

lemma onFail_returns: "fst (onFail p msg error st) = Returned"
  by (simp add: onFail_def Let_def split: option.splits)

lemma stdout_onFail:
  "stdout (snd (onFail p msg error st)) =
     (let label = (if noColor p then ''[ERROR]'' else esc @ ''[38:5:196m[ERROR]'' @ esc @ ''[0m'')
      in stdout st
         @ label @ '' Fatal error while running script!'' @ nl
         @ label @ '' Error message: '' @ dquote @ msg @ dquote @ nl
         @ (case stackOf error of
              None \<Rightarrow> label @ '' No stack trace available!'' @ nl
            | Some s \<Rightarrow>
                if s \<noteq> [] then label @ '' Stack trace:'' @ nl @ s @ nl
                else label @ '' No stack trace available!'' @ nl))"
  by (simp add: onFail_def Let_def stdout_logError stdout_writeLineStdout split: option.splits)

lemma logged_onFail:
  "logged (snd (onFail p msg error st)) = logged st @ [LError, LError, LError]"
  by (simp add: onFail_def Let_def logged_logError logged_writeLineStdout split: option.splits)

subsection \<open>Levels logged along a run\<close>

lemma logged_handler:
  "set (logged (snd (handler p args st))) \<subseteq> set (logged st) \<union> {LInfo, LVerbose}"
  by (auto simp: handler_def Let_def logged_logInfo logged_logVerbose logged_writeLineStdout
      split: if_splits)

lemma logged_invoke:
  "LWarning \<notin> set (logged st) \<Longrightarrow> LWarning \<notin> set (logged (snd (invoke p c st)))"
proof (cases c)
  case (Handler args)
  assume "LWarning \<notin> set (logged st)"
  with logged_handler [of p args st] Handler show ?thesis by auto
next
  case (Fail msg error)
  assume "LWarning \<notin> set (logged st)"
  with Fail show ?thesis by (simp add: logged_onFail)
qed

lemma logged_run:
  "LWarning \<notin> set (logged st) \<Longrightarrow> LWarning \<notin> set (logged (snd (run p cs st)))"
proof (induction cs arbitrary: st)
  case Nil
  then show ?case by simp
next
  case (Cons c cs)
  obtain r st' where inv: "invoke p c st = (r, st')"
    by (cases "invoke p c st")
  with logged_invoke [OF Cons.prems, of p c] have clean: "LWarning \<notin> set (logged st')"
    by simp
  show ?case
  proof (cases r)
    case Returned
    with inv Cons.IH [OF clean] show ?thesis by simp
  next
    case (Exited n)
    with inv clean show ?thesis by simp
  qed
qed

section \<open>The command dispatcher\<close>






section \<open>The default command\<close>

text \<open>
  C2. Whatever the parsed options are, the handler of the default command decides in
  the order help, version, completion script, greeting. With \<open>help\<close> set it prints
  the help text as a line and exits with code 0, whatever the other flags are. With
  \<open>help\<close> not set and \<open>version\<close> set it prints the name and version line and the
  copyright line and exits with code 0. With neither set and \<open>completionScript\<close>
  set it prints the completion script and exits with code 0. On these three ways no
  log line is emitted. With none of the three set it logs the greeting: it writes
  the info line "Hello, world!", and after it, when \<open>verbose\<close> is set, the verbose
  line "Hello, world, verbosely!", and nothing else; then it returns without a call
  of \<open>Deno.exit\<close>. The exit code is 0 on every way through.
\<close>

theorem handler_priority:
  "(help args = Some True \<longrightarrow>
      fst (handler p args st) = Exited 0 \<and>
      stdout (snd (handler p args st)) = stdout st @ getHelp p @ nl \<and>
      logged (snd (handler p args st)) = logged st) \<and>
   (help args \<noteq> Some True \<and> version args = Some True \<longrightarrow>
      fst (handler p args st) = Exited 0 \<and>
      stdout (snd (handler p args st)) =
        stdout st @ SCRIPT_NAME @ '' '' @ SCRIPT_VERSION @ nl @ SCRIPT_COPYRIGHT @ nl \<and>
      logged (snd (handler p args st)) = logged st) \<and>
   (help args \<noteq> Some True \<and> version args \<noteq> Some True \<and>
    completionScript args = Some True \<longrightarrow>
      fst (handler p args st) = Exited 0 \<and>
      stdout (snd (handler p args st)) = stdout st @ showCompletionScript p \<and>
      logged (snd (handler p args st)) = logged st) \<and>
   (help args \<noteq> Some True \<and> version args \<noteq> Some True \<and>
    completionScript args \<noteq> Some True \<longrightarrow>
      fst (handler p args st) = Returned \<and>
      stdout (snd (handler p args st)) =
        stdout st
          @ (if noColor p then ''[INFO]'' else esc @ ''[38:5:111m[INFO]'' @ esc @ ''[0m'')
          @ '' Hello, world!'' @ nl
          @ (if verbose args = Some True then
               (if noColor p then ''[VERBOSE]''
                else esc @ ''[38:5:141m[VERBOSE]'' @ esc @ ''[0m'')
               @ '' Hello, world, verbosely!'' @ nl
             else '''') \<and>
      logged (snd (handler p args st)) =
        logged st @ LInfo # (if verbose args = Some True then [LVerbose] else [])) \<and>
   exitCode (fst (handler p args st)) = 0"
proof (cases args rule: handler_cases)
  case shows_help
  then show ?thesis by (simp add: handler_help)
next
  case shows_version
  then show ?thesis by (simp add: handler_version)
next
  case shows_completion
  then show ?thesis by (simp add: handler_completion)
next
  case greets
  then show ?thesis
    by (simp add: handler_greeting stdout_logVerbose stdout_logInfo logged_logVerbose
        logged_logInfo verboseEnabled_logInfo)
qed

text \<open>
  All four flags set gives the help; all but \<open>help\<close> set gives the version; only
  \<open>completionScript\<close> and \<open>verbose\<close> set gives the script; only \<open>verbose\<close> set
  gives the two greeting lines and returns.
\<close>

theorem handler_priority_witness:
  "fst (handler \<lparr>noColor = True, getHelp = ''usage'', showCompletionScript = ''script''\<rparr>
      \<lparr>verbose = Some True, help = Some True, version = Some True,
       completionScript = Some True\<rparr> initial) = Exited 0 \<and>
   stdout (snd (handler \<lparr>noColor = True, getHelp = ''usage'', showCompletionScript = ''script''\<rparr>
      \<lparr>verbose = Some True, help = Some True, version = Some True,
       completionScript = Some True\<rparr> initial)) = ''usage'' @ [CHR 0x0A] \<and>
   stdout (snd (handler \<lparr>noColor = True, getHelp = ''usage'', showCompletionScript = ''script''\<rparr>
      \<lparr>verbose = Some True, help = Some False, version = Some True,
       completionScript = Some True\<rparr> initial)) =
     ''install-pre-commit v0.1.0'' @ [CHR 0x0A]
       @ ''Copyright (c) 2026 G'lek Tarssza, all rights reserved'' @ [CHR 0x0A] \<and>
   stdout (snd (handler \<lparr>noColor = True, getHelp = ''usage'', showCompletionScript = ''script''\<rparr>
      \<lparr>verbose = Some True, help = Some False, version = Some False,
       completionScript = Some True\<rparr> initial)) = ''script'' \<and>
   fst (handler \<lparr>noColor = True, getHelp = ''usage'', showCompletionScript = ''script''\<rparr>
      \<lparr>verbose = Some True, help = Some False, version = Some False,
       completionScript = Some False\<rparr> initial) = Returned \<and>
   stdout (snd (handler \<lparr>noColor = True, getHelp = ''usage'', showCompletionScript = ''script''\<rparr>
      \<lparr>verbose = Some True, help = Some False, version = Some False,
       completionScript = Some False\<rparr> initial)) =
     ''[INFO] Hello, world!'' @ [CHR 0x0A] @ ''[VERBOSE] Hello, world, verbosely!'' @ [CHR 0x0A] \<and>
   logged (snd (handler \<lparr>noColor = True, getHelp = ''usage'', showCompletionScript = ''script''\<rparr>
      \<lparr>verbose = Some True, help = Some False, version = Some False,
       completionScript = Some False\<rparr> initial)) = [LInfo, LVerbose]"
  using
    handler_priority [of "\<lparr>verbose = Some True, help = Some True, version = Some True,
        completionScript = Some True\<rparr>"
      "\<lparr>noColor = True, getHelp = ''usage'', showCompletionScript = ''script''\<rparr>" initial]
    handler_priority [of "\<lparr>verbose = Some True, help = Some False, version = Some True,
        completionScript = Some True\<rparr>"
      "\<lparr>noColor = True, getHelp = ''usage'', showCompletionScript = ''script''\<rparr>" initial]
    handler_priority [of "\<lparr>verbose = Some True, help = Some False, version = Some False,
        completionScript = Some True\<rparr>"
      "\<lparr>noColor = True, getHelp = ''usage'', showCompletionScript = ''script''\<rparr>" initial]
    handler_priority [of "\<lparr>verbose = Some True, help = Some False, version = Some False,
        completionScript = Some False\<rparr>"
      "\<lparr>noColor = True, getHelp = ''usage'', showCompletionScript = ''script''\<rparr>" initial]
  by (simp add: initial_def nl_def SCRIPT_NAME_def SCRIPT_VERSION_def SCRIPT_COPYRIGHT_def)

text \<open>
  C3. With \<open>version\<close> set and \<open>help\<close> not set, what the handler writes is exactly
  the line \<open>install-pre-commit v0.1.0\<close> followed by the copyright line, each ended by
  one line feed, and the process exits with code 0.
\<close>

theorem handler_version_output:
  "help args \<noteq> Some True \<Longrightarrow> version args = Some True \<Longrightarrow>
   stdout (snd (handler p args st)) =
     stdout st @ ''install-pre-commit v0.1.0'' @ nl
       @ ''Copyright (c) 2026 G'lek Tarssza, all rights reserved'' @ nl \<and>
   fst (handler p args st) = Exited 0 \<and>
   exitCode (fst (handler p args st)) = 0"
  by (simp add: handler_version SCRIPT_NAME_def SCRIPT_VERSION_def SCRIPT_COPYRIGHT_def)

theorem handler_version_output_witness:
  "help \<lparr>verbose = Some False, help = Some False, version = Some True,
      completionScript = Some False\<rparr> \<noteq> Some True \<and>
   version \<lparr>verbose = Some False, help = Some False, version = Some True,
      completionScript = Some False\<rparr> = Some True \<and>
   stdout (snd (handler \<lparr>noColor = False, getHelp = ''usage'', showCompletionScript = ''script''\<rparr>
      \<lparr>verbose = Some False, help = Some False, version = Some True,
       completionScript = Some False\<rparr> initial)) =
     ''install-pre-commit v0.1.0'' @ [CHR 0x0A]
       @ ''Copyright (c) 2026 G'lek Tarssza, all rights reserved'' @ [CHR 0x0A] \<and>
   exitCode (fst (handler \<lparr>noColor = False, getHelp = ''usage'', showCompletionScript = ''script''\<rparr>
      \<lparr>verbose = Some False, help = Some False, version = Some True,
       completionScript = Some False\<rparr> initial)) = 0"
  using handler_version_output [of "\<lparr>verbose = Some False, help = Some False, version = Some True,
        completionScript = Some False\<rparr>"
      "\<lparr>noColor = False, getHelp = ''usage'', showCompletionScript = ''script''\<rparr>" initial]
  by (simp add: initial_def nl_def)

text \<open>
  C6. With none of \<open>help\<close>, \<open>version\<close> and \<open>completionScript\<close> set: when
  \<open>verbose\<close> is not set either, the handler writes exactly one line, the info
  greeting; when \<open>verbose\<close> is set, it writes exactly the info greeting line followed
  by the verbose greeting line. The label of a line is plain when colour is off and
  wrapped in its colour code otherwise.
\<close>

theorem handler_greeting_output:
  "help args \<noteq> Some True \<Longrightarrow> version args \<noteq> Some True \<Longrightarrow>
   completionScript args \<noteq> Some True \<Longrightarrow>
   (verbose args \<noteq> Some True \<longrightarrow>
      stdout (snd (handler p args st)) =
        stdout st
          @ (if noColor p then ''[INFO]'' else esc @ ''[38:5:111m[INFO]'' @ esc @ ''[0m'')
          @ '' Hello, world!'' @ nl \<and>
      logged (snd (handler p args st)) = logged st @ [LInfo]) \<and>
   (verbose args = Some True \<longrightarrow>
      stdout (snd (handler p args st)) =
        stdout st
          @ (if noColor p then ''[INFO]'' else esc @ ''[38:5:111m[INFO]'' @ esc @ ''[0m'')
          @ '' Hello, world!'' @ nl
          @ (if noColor p then ''[VERBOSE]'' else esc @ ''[38:5:141m[VERBOSE]'' @ esc @ ''[0m'')
          @ '' Hello, world, verbosely!'' @ nl \<and>
      logged (snd (handler p args st)) = logged st @ [LInfo, LVerbose])"
  by (simp add: handler_greeting stdout_logVerbose stdout_logInfo logged_logVerbose
      logged_logInfo verboseEnabled_logInfo)

theorem handler_greeting_output_witness:
  "stdout (snd (handler \<lparr>noColor = True, getHelp = ''usage'', showCompletionScript = ''script''\<rparr>
      \<lparr>verbose = Some False, help = Some False, version = Some False,
       completionScript = Some False\<rparr> initial)) = ''[INFO] Hello, world!'' @ [CHR 0x0A] \<and>
   stdout (snd (handler \<lparr>noColor = True, getHelp = ''usage'', showCompletionScript = ''script''\<rparr>
      \<lparr>verbose = Some True, help = Some False, version = Some False,
       completionScript = Some False\<rparr> initial)) =
     ''[INFO] Hello, world!'' @ [CHR 0x0A] @ ''[VERBOSE] Hello, world, verbosely!'' @ [CHR 0x0A]"
  using
    handler_greeting_output [of "\<lparr>verbose = Some False, help = Some False, version = Some False,
        completionScript = Some False\<rparr>"
      "\<lparr>noColor = True, getHelp = ''usage'', showCompletionScript = ''script''\<rparr>" initial]
    handler_greeting_output [of "\<lparr>verbose = Some True, help = Some False, version = Some False,
        completionScript = Some False\<rparr>"
      "\<lparr>noColor = True, getHelp = ''usage'', showCompletionScript = ''script''\<rparr>" initial]
  by (simp add: initial_def nl_def)

section \<open>The leveled logger\<close>

text \<open>
  C7. While the verbosity state is false, a call of the verbose logger, with any
  values, leaves the state as it is: nothing is written.
\<close>

theorem logVerbose_disabled_noop:
  "\<not> verboseEnabled st \<Longrightarrow>
     logVerbose p data st = st \<and> stdout (logVerbose p data st) = stdout st"
  by (simp add: logVerbose_def)

theorem logVerbose_disabled_noop_witness:
  "\<not> verboseEnabled initial \<and>
   logVerbose \<lparr>noColor = True, getHelp = ''usage'', showCompletionScript = ''script''\<rparr>
     [JString ''Hello, world, verbosely!''] initial = initial \<and>
   stdout (logVerbose \<lparr>noColor = True, getHelp = ''usage'', showCompletionScript = ''script''\<rparr>
     [JString ''Hello, world, verbosely!''] initial) = ''''"
  using logVerbose_disabled_noop [of initial
      "\<lparr>noColor = True, getHelp = ''usage'', showCompletionScript = ''script''\<rparr>"
      "[JString ''Hello, world, verbosely!'']"]
  by (simp add: initial_def)

text \<open>
  C9. For each of the loggers error, warning and info, and for the verbose logger
  while the verbosity state is true, and for every list of values, one call appends
  to standard output the label of the level (plain when colour is off, wrapped in
  the level's colour code otherwise), one space, the values joined with single
  spaces, and one line feed. Joined with single spaces means: nothing for no value,
  and otherwise the first value followed by each further value with one space in
  front of it.
\<close>

theorem log_line_format:
  "stdout (logError p data st) =
     stdout st @ (if noColor p then ''[ERROR]'' else esc @ ''[38:5:196m[ERROR]'' @ esc @ ''[0m'')
       @ '' '' @ join '' '' data @ nl \<and>
   stdout (logWarning p data st) =
     stdout st @ (if noColor p then ''[WARN]'' else esc @ ''[38:5:208m[WARN]'' @ esc @ ''[0m'')
       @ '' '' @ join '' '' data @ nl \<and>
   stdout (logInfo p data st) =
     stdout st @ (if noColor p then ''[INFO]'' else esc @ ''[38:5:111m[INFO]'' @ esc @ ''[0m'')
       @ '' '' @ join '' '' data @ nl \<and>
   (verboseEnabled st \<longrightarrow>
     stdout (logVerbose p data st) =
       stdout st @ (if noColor p then ''[VERBOSE]'' else esc @ ''[38:5:141m[VERBOSE]'' @ esc @ ''[0m'')
         @ '' '' @ join '' '' data @ nl) \<and>
   join '' '' [] = '''' \<and>
   join '' '' (x # xs) = toString x @ concat (map (\<lambda>y. '' '' @ toString y) xs)"
  using stdout_logError [of p data st] stdout_logWarning [of p data st]
    stdout_logInfo [of p data st] stdout_logVerbose [of p data st]
    join_Cons [of "'' ''" x xs]
  by simp

theorem log_line_format_witness:
  "verboseEnabled \<lparr>verboseEnabled = True, stdout = ''> '', logged = []\<rparr> \<and>
   stdout (logVerbose \<lparr>noColor = True, getHelp = ''usage'', showCompletionScript = ''script''\<rparr>
      [JString ''a'', JNull, JBoolean True, JString ''b'']
      \<lparr>verboseEnabled = True, stdout = ''> '', logged = []\<rparr>) =
     ''> [VERBOSE] a  true b'' @ [CHR 0x0A] \<and>
   stdout (logError \<lparr>noColor = False, getHelp = ''usage'', showCompletionScript = ''script''\<rparr>
      [JString ''a'', JString ''b'']
      \<lparr>verboseEnabled = True, stdout = '''', logged = []\<rparr>) =
     [CHR 0x1B] @ ''[38:5:196m[ERROR]'' @ [CHR 0x1B] @ ''[0m a b'' @ [CHR 0x0A]"
  using
    log_line_format [of "\<lparr>noColor = True, getHelp = ''usage'', showCompletionScript = ''script''\<rparr>"
      "[JString ''a'', JNull, JBoolean True, JString ''b'']"
      "\<lparr>verboseEnabled = True, stdout = ''> '', logged = []\<rparr>"]
    log_line_format [of "\<lparr>noColor = False, getHelp = ''usage'', showCompletionScript = ''script''\<rparr>"
      "[JString ''a'', JString ''b'']"
      "\<lparr>verboseEnabled = True, stdout = '''', logged = []\<rparr>"]
  by (simp add: nl_def esc_def)

section \<open>The failure callback\<close>

text \<open>
  C8. For every failure message and every optional error, the failure callback
  writes exactly: the error line "Fatal error while running script!"; the error line
  holding the message between double quotes; then, when the error carries a stack
  trace (it is there, and its \<open>stack\<close> is a non-empty string), the error line
  "Stack trace:" followed by the stack trace as a line of its own, and otherwise the
  error line "No stack trace available!". The callback returns: it has no statement
  that raises and it does not exit the process, and exiting on failure is switched
  off in the configuration.
\<close>

theorem onFail_diagnostics:
  "fst (onFail p msg error st) = Returned \<and>
   \<not> EXIT_PROCESS_ON_FAIL \<and>
   stdout (snd (onFail p msg error st)) =
     (let label = (if noColor p then ''[ERROR]'' else esc @ ''[38:5:196m[ERROR]'' @ esc @ ''[0m'')
      in stdout st
         @ label @ '' Fatal error while running script!'' @ nl
         @ label @ '' Error message: '' @ dquote @ msg @ dquote @ nl
         @ (case stackOf error of
              None \<Rightarrow> label @ '' No stack trace available!'' @ nl
            | Some s \<Rightarrow>
                if s \<noteq> [] then label @ '' Stack trace:'' @ nl @ s @ nl
                else label @ '' No stack trace available!'' @ nl))"
  using onFail_returns [of p msg error st] stdout_onFail [of p msg error st]
  by (simp add: EXIT_PROCESS_ON_FAIL_def)

text \<open>A validation failure without an error, and a failure with an error and its stack.\<close>

theorem onFail_diagnostics_witness:
  "stdout (snd (onFail \<lparr>noColor = True, getHelp = ''usage'', showCompletionScript = ''script''\<rparr>
      ''A command is required!'' None initial)) =
     ''[ERROR] Fatal error while running script!'' @ [CHR 0x0A]
       @ ''[ERROR] Error message: '' @ [CHR 0x22] @ ''A command is required!'' @ [CHR 0x22]
       @ [CHR 0x0A]
       @ ''[ERROR] No stack trace available!'' @ [CHR 0x0A] \<and>
   stdout (snd (onFail \<lparr>noColor = True, getHelp = ''usage'', showCompletionScript = ''script''\<rparr>
      ''boom'' (Some \<lparr>message = ''boom'', stack = Some ''Error: boom at f''\<rparr>) initial)) =
     ''[ERROR] Fatal error while running script!'' @ [CHR 0x0A]
       @ ''[ERROR] Error message: '' @ [CHR 0x22] @ ''boom'' @ [CHR 0x22] @ [CHR 0x0A]
       @ ''[ERROR] Stack trace:'' @ [CHR 0x0A]
       @ ''Error: boom at f'' @ [CHR 0x0A]"
  using
    onFail_diagnostics [of "\<lparr>noColor = True, getHelp = ''usage'', showCompletionScript = ''script''\<rparr>"
      "''A command is required!''" None initial]
    onFail_diagnostics [of "\<lparr>noColor = True, getHelp = ''usage'', showCompletionScript = ''script''\<rparr>"
      "''boom''" "Some \<lparr>message = ''boom'', stack = Some ''Error: boom at f''\<rparr>" initial]
  by (simp add: initial_def nl_def dquote_def stackOf_def)

section \<open>Runs\<close>

text \<open>
  C10. In every run of the script, that is for every sequence of calls of the handler
  and of the failure callback from the initial state, no line of level warning is
  emitted: neither function calls the warning logger.
\<close>

theorem no_warning_emitted:
  "LWarning \<notin> set (logged (snd (run p cs initial)))"
  using logged_run [of initial p cs] by (simp add: initial_def)

text \<open>
  A run in which the validation fails and the handler greets verbosely afterwards
  emits three error lines, an info line and a verbose line.
\<close>

theorem no_warning_emitted_witness:
  "logged (snd (run \<lparr>noColor = True, getHelp = ''usage'', showCompletionScript = ''script''\<rparr>
      [Fail ''A command is required!'' None,
       Handler \<lparr>verbose = Some True, help = Some False, version = Some False,
         completionScript = Some False\<rparr>] initial)) =
     [LError, LError, LError, LInfo, LVerbose] \<and>
   LWarning \<notin> set (logged (snd (run \<lparr>noColor = True, getHelp = ''usage'', showCompletionScript = ''script''\<rparr>
      [Fail ''A command is required!'' None,
       Handler \<lparr>verbose = Some True, help = Some False, version = Some False,
         completionScript = Some False\<rparr>] initial)))"
  using no_warning_emitted [of "\<lparr>noColor = True, getHelp = ''usage'', showCompletionScript = ''script''\<rparr>"
      "[Fail ''A command is required!'' None,
        Handler \<lparr>verbose = Some True, help = Some False, version = Some False,
          completionScript = Some False\<rparr>]"]
  by (simp add: initial_def onFail_def handler_def stackOf_def Let_def logError_def
      logInfo_def logVerbose_def emitted_def writeLineStdoutSync_def writeStdoutSync_def)

section \<open>The verbosity state\<close>

text \<open>
  The handler sets the verbosity state from the parsed \<open>verbose\<close> flag on every way
  through, and nothing it does depends on the value the state had before.
\<close>

theorem handler_sets_verbosity:
  "verboseEnabled (snd (handler p args st)) = (verbose args = Some True)"
  by (cases args rule: handler_cases)
     (simp_all add: handler_help handler_version handler_completion handler_greeting
        verboseEnabled_logInfo verboseEnabled_logVerbose)

theorem handler_ignores_old_verbosity:
  "handler p args (st\<lparr>verboseEnabled := b\<rparr>) = handler p args st"
  by (simp add: handler_def)

end
